theory Spec2Isabelle
  imports Main "HOL-Library.Signed_Division" "HOL-Library.Word"
begin

section \<open>TaskCPP.h: the FreeRTOS task wrapper\<close>

subsection \<open>enum TaskPriority\<close>

text \<open>
  The six enumerators of \<^verbatim>\<open>enum TaskPriority\<close> are constant expressions over the macro
  \<^verbatim>\<open>configMAX_PRIORITIES\<close>, which FreeRTOSConfig.h supplies; it is the parameter of each
  definition. The arithmetic is C's \<^verbatim>\<open>int\<close> arithmetic: a comparison yields 0 or 1
  (\<^term>\<open>of_bool\<close>), and \<^verbatim>\<open>/\<close> truncates towards zero (\<open>sdiv\<close>). For a count of at least 1
  that fits an \<^verbatim>\<open>int\<close>, no intermediate value leaves the range of \<^verbatim>\<open>int\<close>, so the
  unbounded \<^typ>\<open>int\<close> computes what the compiler does.
\<close>

type_synonym TaskPriority = int

definition TaskPrio_Idle :: "int \<Rightarrow> TaskPriority" where
  "TaskPrio_Idle configMAX_PRIORITIES = 0"

definition TaskPrio_Low :: "int \<Rightarrow> TaskPriority" where
  "TaskPrio_Low configMAX_PRIORITIES = of_bool (configMAX_PRIORITIES > 1)"

definition TaskPrio_HMI :: "int \<Rightarrow> TaskPriority" where
  "TaskPrio_HMI configMAX_PRIORITIES =
     TaskPrio_Low configMAX_PRIORITIES + of_bool (configMAX_PRIORITIES > 5)"

definition TaskPrio_Mid :: "int \<Rightarrow> TaskPriority" where
  "TaskPrio_Mid configMAX_PRIORITIES = configMAX_PRIORITIES sdiv 2"

definition TaskPrio_High :: "int \<Rightarrow> TaskPriority" where
  "TaskPrio_High configMAX_PRIORITIES =
     configMAX_PRIORITIES - 1 - of_bool (configMAX_PRIORITIES > 4)"

definition TaskPrio_Highest :: "int \<Rightarrow> TaskPriority" where
  "TaskPrio_Highest configMAX_PRIORITIES = configMAX_PRIORITIES - 1"

text \<open>The enumerators in declaration order, as one row of the table in the header comment.\<close>

definition TaskPriority_row :: "int \<Rightarrow> TaskPriority list" where
  "TaskPriority_row n =
     [TaskPrio_Idle n, TaskPrio_Low n, TaskPrio_HMI n,
      TaskPrio_Mid n, TaskPrio_High n, TaskPrio_Highest n]"

subsection \<open>The scheduler's primitives\<close>

text \<open>
  The types and primitives of \<^verbatim>\<open>freertos/task.h\<close> are not part of this header; they are the
  parameter \<open>K\<close> of every operation. A handle is a pointer, \<open>NULL\<close> being 0; an object is
  named by its address. \<^verbatim>\<open>unsigned portSHORT\<close> is a 16-bit unsigned integer, and
  \<^verbatim>\<open>UBaseType_t\<close> a 32-bit one, as on the ports that ship the \<^verbatim>\<open>freertos/\<close> headers the
  file includes. A \<^verbatim>\<open>TaskPriority\<close> handed to a primitive is converted to \<^verbatim>\<open>UBaseType_t\<close>,
  modulo \<open>2\<^sup>3\<^sup>2\<close>.
\<close>

type_synonym TaskHandle_t = nat
type_synonym addr = nat
type_synonym BaseType_t = int
type_synonym UBaseType_t = "32 word"
type_synonym TickType_t = nat

abbreviation (input) NULL :: nat where
  "NULL \<equiv> 0"

text \<open>From FreeRTOS's \<^verbatim>\<open>projdefs.h\<close>: the two truth values of \<^verbatim>\<open>BaseType_t\<close>.\<close>

definition pdFALSE :: BaseType_t where
  "pdFALSE = 0"

definition pdTRUE :: BaseType_t where
  "pdTRUE = 1"

definition pdPASS :: BaseType_t where
  "pdPASS = pdTRUE"

text \<open>
  A task entry point \<^verbatim>\<open>void (*)(void *)\<close>: the trampoline of \<^verbatim>\<open>TaskClass\<close>, or a function
  of the user's, named by its address.
\<close>

datatype TaskFunction_t = TaskClass_taskfun | Function nat

text \<open>
  A scheduler over kernel states \<open>'k\<close>. \<open>xTaskCreate\<close> yields its status and the value it
  stored through \<^verbatim>\<open>pxCreatedTask\<close>, \<open>None\<close> when it stored nothing. Every other primitive
  receives the handle by value.
\<close>

record 'k FreeRTOS =
  xTaskCreate :: "TaskFunction_t \<Rightarrow> string \<Rightarrow> 16 word \<Rightarrow> addr \<Rightarrow> UBaseType_t \<Rightarrow>
                  'k \<Rightarrow> (BaseType_t \<times> TaskHandle_t option) \<times> 'k"
  vTaskDelete :: "TaskHandle_t \<Rightarrow> 'k \<Rightarrow> 'k"
  uxTaskPriorityGet :: "TaskHandle_t \<Rightarrow> 'k \<Rightarrow> UBaseType_t \<times> 'k"
  vTaskPrioritySet :: "TaskHandle_t \<Rightarrow> UBaseType_t \<Rightarrow> 'k \<Rightarrow> 'k"
  vTaskSuspend :: "TaskHandle_t \<Rightarrow> 'k \<Rightarrow> 'k"
  vTaskResume :: "TaskHandle_t \<Rightarrow> 'k \<Rightarrow> 'k"
  xTaskResumeFromISR :: "TaskHandle_t \<Rightarrow> 'k \<Rightarrow> BaseType_t \<times> 'k"
  vTaskDelay :: "TickType_t \<Rightarrow> 'k \<Rightarrow> 'k"

text \<open>The macros of FreeRTOSConfig.h and portmacro.h that select or parametrise code.\<close>

record FreeRTOSConfig =
  INCLUDE_vTaskDelete :: bool
  portMAX_DELAY :: TickType_t

subsection \<open>The state the wrapper runs in\<close>

datatype sched_call =
    XTaskCreate TaskFunction_t string "16 word" addr UBaseType_t addr
  | VTaskDelete TaskHandle_t
  | UxTaskPriorityGet TaskHandle_t
  | VTaskPrioritySet TaskHandle_t UBaseType_t
  | VTaskSuspend TaskHandle_t
  | VTaskResume TaskHandle_t
  | XTaskResumeFromISR TaskHandle_t
  | VTaskDelay TickType_t

datatype event = Call sched_call | Assign addr TaskHandle_t

text \<open>
  \<open>handle w a\<close> is the member \<^verbatim>\<open>handle\<close> of the \<^verbatim>\<open>Task\<close> object at address \<open>a\<close> (for
  storage no constructor has run on yet, whatever the memory holds); \<open>kernel\<close> is the
  scheduler's state; \<open>trace\<close> lists, oldest first, the scheduler calls made and the stores
  to a \<^verbatim>\<open>handle\<close> member.
\<close>

record 'k world =
  handle :: "addr \<Rightarrow> TaskHandle_t"
  kernel :: 'k
  trace :: "event list"

definition invoke :: "sched_call \<Rightarrow> ('k \<Rightarrow> 'r \<times> 'k) \<Rightarrow> 'k world \<Rightarrow> 'r \<times> 'k world" where
  "invoke c prim w =
     (let (r, k) = prim (kernel w)
      in (r, w\<lparr>kernel := k, trace := trace w @ [Call c]\<rparr>))"

definition invoke_void :: "sched_call \<Rightarrow> ('k \<Rightarrow> 'k) \<Rightarrow> 'k world \<Rightarrow> 'k world" where
  "invoke_void c prim w = w\<lparr>kernel := prim (kernel w), trace := trace w @ [Call c]\<rparr>"

definition assign :: "addr \<Rightarrow> TaskHandle_t \<Rightarrow> 'k world \<Rightarrow> 'k world" where
  "assign a h w = w\<lparr>handle := (handle w)(a := h), trace := trace w @ [Assign a h]\<rparr>"

subsection \<open>class Task\<close>

text \<open>
  The constructor has no member initialiser and discards the status of \<^verbatim>\<open>xTaskCreate\<close>; the
  only store to \<^verbatim>\<open>handle\<close> is the one the primitive makes through \<^verbatim>\<open>&handle\<close>.
\<close>

definition Task_ctor ::
  "'k FreeRTOS \<Rightarrow> addr \<Rightarrow> string \<Rightarrow> TaskFunction_t \<Rightarrow> TaskPriority \<Rightarrow> 16 word \<Rightarrow> addr \<Rightarrow>
   'k world \<Rightarrow> 'k world" where
  "Task_ctor K this name taskfun priority stackDepth parm w =
     (let ((status, stored), w1) =
            invoke (XTaskCreate taskfun name stackDepth parm (word_of_int priority) this)
                   (xTaskCreate K taskfun name stackDepth parm (word_of_int priority)) w
      in case stored of None \<Rightarrow> w1 | Some h \<Rightarrow> assign this h w1)"

definition Task_dtor :: "FreeRTOSConfig \<Rightarrow> 'k FreeRTOS \<Rightarrow> addr \<Rightarrow> 'k world \<Rightarrow> 'k world" where
  "Task_dtor cfg K this w =
     (if INCLUDE_vTaskDelete cfg
      then (if handle w this \<noteq> NULL
            then invoke_void (VTaskDelete (handle w this)) (vTaskDelete K (handle w this)) w
            else w)
      else w)"

definition getHandle :: "addr \<Rightarrow> 'k world \<Rightarrow> TaskHandle_t" where
  "getHandle this w = handle w this"

text \<open>
  The getter \<^verbatim>\<open>priority()\<close> lacks a closing parenthesis in the header; it is read as
  \<^verbatim>\<open>static_cast<TaskPriority>(uxTaskPriorityGet(handle))\<close>, the cast keeping the value the
  scheduler reports. The members from here on exist only under their \<^verbatim>\<open>INCLUDE_\<close> macros.
\<close>

definition priority_get :: "'k FreeRTOS \<Rightarrow> addr \<Rightarrow> 'k world \<Rightarrow> TaskPriority \<times> 'k world" where
  "priority_get K this w =
     (let (p, w1) = invoke (UxTaskPriorityGet (handle w this))
                           (uxTaskPriorityGet K (handle w this)) w
      in (uint p, w1))"

definition priority_set :: "'k FreeRTOS \<Rightarrow> addr \<Rightarrow> TaskPriority \<Rightarrow> 'k world \<Rightarrow> 'k world" where
  "priority_set K this priority w =
     invoke_void (VTaskPrioritySet (handle w this) (word_of_int priority))
                 (vTaskPrioritySet K (handle w this) (word_of_int priority)) w"

definition suspend :: "'k FreeRTOS \<Rightarrow> addr \<Rightarrow> 'k world \<Rightarrow> 'k world" where
  "suspend K this w =
     invoke_void (VTaskSuspend (handle w this)) (vTaskSuspend K (handle w this)) w"

definition resume :: "'k FreeRTOS \<Rightarrow> addr \<Rightarrow> 'k world \<Rightarrow> 'k world" where
  "resume K this w =
     invoke_void (VTaskResume (handle w this)) (vTaskResume K (handle w this)) w"

text \<open>The \<^verbatim>\<open>BaseType_t\<close> of the primitive converts to \<^verbatim>\<open>bool\<close>: nonzero is true.\<close>

definition resume_ISR :: "'k FreeRTOS \<Rightarrow> addr \<Rightarrow> 'k world \<Rightarrow> bool \<times> 'k world" where
  "resume_ISR K this w =
     (let (r, w1) = invoke (XTaskResumeFromISR (handle w this))
                           (xTaskResumeFromISR K (handle w this)) w
      in (r \<noteq> 0, w1))"

subsection \<open>class TaskClass\<close>

definition TaskClass_ctor ::
  "'k FreeRTOS \<Rightarrow> addr \<Rightarrow> string \<Rightarrow> TaskPriority \<Rightarrow> 16 word \<Rightarrow> 'k world \<Rightarrow> 'k world" where
  "TaskClass_ctor K this name priority stackDepth w =
     Task_ctor K this name TaskClass_taskfun priority stackDepth this w"

text \<open>
  Where a run of the trampoline stands: control has left the function; or the running task
  has been deleted inside \<^verbatim>\<open>vTaskDelete(0)\<close> (``Delete ourselves''); or control is at the head
  of \<^verbatim>\<open>while(1)\<close>, about to call \<^verbatim>\<open>vTaskDelay\<close> once more. Each carries the world reached.
\<close>

datatype 'w ending = Returned 'w | SelfDeleted 'w | Delaying 'w

text \<open>
  \<^verbatim>\<open>while(1) vTaskDelay(portMAX_DELAY);\<close> run for \<open>n\<close> turns. The loop has no exit: when the
  turns are used up, control is at its head again.
\<close>

fun delay_loop :: "nat \<Rightarrow> 'k FreeRTOS \<Rightarrow> TickType_t \<Rightarrow> 'k world \<Rightarrow> 'k world ending" where
  "delay_loop 0 K d w = Delaying w"
| "delay_loop (Suc n) K d w = delay_loop n K d (invoke_void (VTaskDelay d) (vTaskDelay K d) w)"

text \<open>
  The virtual \<^verbatim>\<open>task()\<close> of the derived class is the parameter \<open>task\<close>: applied to the object
  and the world, it yields the world it returns in, or \<open>None\<close> when it never returns. The
  first argument of \<open>taskfun\<close> is the number of turns the fallback loop is followed for.
\<close>

definition taskfun ::
  "nat \<Rightarrow> FreeRTOSConfig \<Rightarrow> 'k FreeRTOS \<Rightarrow> (addr \<Rightarrow> 'k world \<Rightarrow> 'k world option) \<Rightarrow> addr \<Rightarrow>
   'k world \<Rightarrow> 'k world ending option" where
  "taskfun n cfg K task parm w =
     (case task parm w of
        None \<Rightarrow> None
      | Some w1 \<Rightarrow>
          if INCLUDE_vTaskDelete cfg
          then Some (SelfDeleted
                 (invoke_void (VTaskDelete NULL) (vTaskDelete K NULL) (assign parm NULL w1)))
          else Some (delay_loop n K (portMAX_DELAY cfg) w1))"

subsection \<open>Instrumentation and sample environments\<close>

text \<open>The stores to a \<^verbatim>\<open>handle\<close> member that a trace records, oldest first.\<close>

fun handle_stores :: "event list \<Rightarrow> (addr \<times> TaskHandle_t) list" where
  "handle_stores [] = []"
| "handle_stores (Assign a h # es) = (a, h) # handle_stores es"
| "handle_stores (Call c # es) = handle_stores es"


text \<open>\<open>w'\<close> has every \<^verbatim>\<open>handle\<close> member as \<open>w\<close> has it, and records no further store.\<close>

definition keeps_handles :: "'k world \<Rightarrow> 'k world \<Rightarrow> bool" where
  "keeps_handles w w' \<longleftrightarrow>
     handle w' = handle w \<and> handle_stores (trace w') = handle_stores (trace w)"

text \<open>
  A scheduler that always succeeds: its state counts the tasks created, and the handle of
  the \<open>n\<close>-th task is \<open>n\<close>. It reports priority 0 and asks for a context switch exactly when
  the resumed handle is even.
\<close>

definition counting_kernel :: "nat FreeRTOS" where
  "counting_kernel =
     \<lparr>xTaskCreate = (\<lambda>f name depth parm prio k. ((pdPASS, Some (Suc k)), Suc k)),
      vTaskDelete = (\<lambda>h k. k),
      uxTaskPriorityGet = (\<lambda>h k. (0, k)),
      vTaskPrioritySet = (\<lambda>h p k. k),
      vTaskSuspend = (\<lambda>h k. k),
      vTaskResume = (\<lambda>h k. k),
      xTaskResumeFromISR = (\<lambda>h k. (if even h then pdTRUE else pdFALSE, k)),
      vTaskDelay = (\<lambda>d k. k)\<rparr>"


text \<open>Memory whose every word holds \<open>g\<close>, a fresh scheduler, nothing recorded yet.\<close>

definition fresh_world :: "TaskHandle_t \<Rightarrow> nat world" where
  "fresh_world g = \<lparr>handle = (\<lambda>a. g), kernel = 0, trace = []\<rparr>"

definition config_with_delete :: FreeRTOSConfig where
  "config_with_delete = \<lparr>INCLUDE_vTaskDelete = True, portMAX_DELAY = 4294967295\<rparr>"

definition config_without_delete :: FreeRTOSConfig where
  "config_without_delete = \<lparr>INCLUDE_vTaskDelete = False, portMAX_DELAY = 4294967295\<rparr>"

section \<open>Properties of the priority scale\<close>

lemmas TaskPrio_defs =
  TaskPrio_Idle_def TaskPrio_Low_def TaskPrio_HMI_def
  TaskPrio_Mid_def TaskPrio_High_def TaskPrio_Highest_def

lemma sdiv_two_pos: "1 \<le> n \<Longrightarrow> (n::int) sdiv 2 = n div 2"
  by (simp add: signed_divide_int_def)

text \<open>
  Claim C1. For every configured count \<open>N \<ge> 1\<close> the six tiers are: Idle = 0; Low = 1 if
  \<open>N > 1\<close>, else 0; HMI = Low + (1 if \<open>N > 5\<close>, else 0); Mid = \<open>N / 2\<close> in integer division;
  High = \<open>N - 1 -\<close> (1 if \<open>N > 4\<close>, else 0); Highest = \<open>N - 1\<close>.
\<close>

theorem TaskPriority_values:
  assumes "1 \<le> N"
  shows "TaskPrio_Idle N = 0 \<and>
         TaskPrio_Low N = (if N > 1 then 1 else 0) \<and>
         TaskPrio_HMI N = TaskPrio_Low N + (if N > 5 then 1 else 0) \<and>
         TaskPrio_Mid N = N div 2 \<and>
         TaskPrio_High N = N - 1 - (if N > 4 then 1 else 0) \<and>
         TaskPrio_Highest N = N - 1"
  using assms by (simp add: TaskPrio_defs sdiv_two_pos)

theorem TaskPriority_values_witness:
  "(1::int) \<le> 7 \<and> TaskPrio_Idle 7 = 0 \<and> TaskPrio_Low 7 = 1 \<and> TaskPrio_HMI 7 = 2 \<and>
   TaskPrio_Mid 7 = 3 \<and> TaskPrio_High 7 = 5 \<and> TaskPrio_Highest 7 = 6"
  using TaskPriority_values [of 7] by simp

text \<open>
  Claim C2. For every count \<open>N \<ge> 1\<close> the tier ordinals are ordered
  Idle \<open>\<le>\<close> Low \<open>\<le>\<close> HMI \<open>\<le>\<close> Mid \<open>\<le>\<close> High \<open>\<le>\<close> Highest, Idle is 0, Highest is \<open>N - 1\<close>,
  and no tier exceeds \<open>N - 1\<close>.
\<close>

theorem TaskPriority_monotone:
  assumes "1 \<le> N"
  shows "TaskPrio_Idle N \<le> TaskPrio_Low N \<and>
         TaskPrio_Low N \<le> TaskPrio_HMI N \<and>
         TaskPrio_HMI N \<le> TaskPrio_Mid N \<and>
         TaskPrio_Mid N \<le> TaskPrio_High N \<and>
         TaskPrio_High N \<le> TaskPrio_Highest N \<and>
         TaskPrio_Idle N = 0 \<and> TaskPrio_Highest N = N - 1 \<and>
         (\<forall>p \<in> set (TaskPriority_row N). 0 \<le> p \<and> p \<le> N - 1)"
proof -
  have mid: "TaskPrio_Mid N = N div 2"
    using assms by (simp add: TaskPrio_Mid_def sdiv_two_pos)
  have low_hmi: "TaskPrio_Low N \<le> TaskPrio_HMI N"
    by (simp add: TaskPrio_HMI_def)
  have hmi_mid: "TaskPrio_HMI N \<le> TaskPrio_Mid N"
    unfolding mid using assms by (simp add: TaskPrio_HMI_def TaskPrio_Low_def) arith
  have mid_high: "TaskPrio_Mid N \<le> TaskPrio_High N"
    unfolding mid using assms by (simp add: TaskPrio_High_def) arith
  have high_top: "TaskPrio_High N \<le> TaskPrio_Highest N"
    by (simp add: TaskPrio_High_def TaskPrio_Highest_def)
  have idle: "TaskPrio_Idle N = 0" and idle_low: "TaskPrio_Idle N \<le> TaskPrio_Low N"
    by (simp_all add: TaskPrio_Idle_def TaskPrio_Low_def)
  have top: "TaskPrio_Highest N = N - 1"
    by (simp add: TaskPrio_Highest_def)
  have "0 \<le> p \<and> p \<le> N - 1" if "p \<in> set (TaskPriority_row N)" for p
    using that idle idle_low low_hmi hmi_mid mid_high high_top top
    by (auto simp: TaskPriority_row_def)
  with idle idle_low low_hmi hmi_mid mid_high high_top top show ?thesis
    by blast
qed

theorem TaskPriority_monotone_witness:
  "(1::int) \<le> 3 \<and>
   TaskPrio_Idle 3 \<le> TaskPrio_Low 3 \<and> TaskPrio_Low 3 \<le> TaskPrio_HMI 3 \<and>
   TaskPrio_HMI 3 \<le> TaskPrio_Mid 3 \<and> TaskPrio_Mid 3 \<le> TaskPrio_High 3 \<and>
   TaskPrio_High 3 \<le> TaskPrio_Highest 3 \<and> TaskPrio_Highest 3 = 2 \<and>
   TaskPriority_row 3 = [0, 1, 1, 1, 2, 2]"
  using TaskPriority_monotone [of 3]
  by (simp add: TaskPriority_row_def TaskPrio_defs signed_divide_int_def)

text \<open>
  Claim C3, as stated: the tables for \<open>N = 1, 2, 6, 10\<close> are all-zero,
  \<open>(0,1,1,1,0,1)\<close>, \<open>(0,1,2,3,4,5)\<close> and \<open>(0,1,2,5,8,9)\<close>. The row for \<open>N = 2\<close> is not the
  one the enumerators produce: \<^verbatim>\<open>TaskPrio_High\<close> is \<open>2 - 1 - 0 = 1\<close> there, as the table in
  the header's own comment says.
\<close>

theorem TaskPriority_table_two_counterexample:
  "TaskPriority_row 2 \<noteq> [0, 1, 1, 1, 0, 1]"
  by (simp add: TaskPriority_row_def TaskPrio_defs signed_divide_int_def)

text \<open>
  Claim C3, amended: the rows for \<open>N = 1, 6, 10\<close> are as the claim lists them, and the row
  for \<open>N = 2\<close> is \<open>(0,1,1,1,1,1)\<close>.
\<close>

theorem TaskPriority_tables:
  "TaskPriority_row 1 = [0, 0, 0, 0, 0, 0] \<and>
   TaskPriority_row 2 = [0, 1, 1, 1, 1, 1] \<and>
   TaskPriority_row 6 = [0, 1, 2, 3, 4, 5] \<and>
   TaskPriority_row 10 = [0, 1, 2, 5, 8, 9]"
  by (simp add: TaskPriority_row_def TaskPrio_defs signed_divide_int_def)

section \<open>Properties of the task wrapper\<close>

subsection \<open>The delay loop and the trace bookkeeping\<close>

lemma delay_loop_turns:
  "delay_loop n K d w =
     Delaying (w\<lparr>kernel := (vTaskDelay K d ^^ n) (kernel w),
                 trace := trace w @ replicate n (Call (VTaskDelay d))\<rparr>)"
proof (induction n arbitrary: w)
  case 0
  show ?case by simp
next
  case (Suc n)
  show ?case
    by (simp add: Suc.IH invoke_void_def funpow_swap1 replicate_append_same)
qed

lemma handle_stores_append: "handle_stores (xs @ ys) = handle_stores xs @ handle_stores ys"
  by (induction xs rule: handle_stores.induct) simp_all


lemma keeps_handles_invoke_void: "keeps_handles w (invoke_void c prim w)"
  by (simp add: keeps_handles_def invoke_void_def handle_stores_append)

lemma keeps_handles_invoke: "keeps_handles w (snd (invoke c prim w))"
  by (simp add: keeps_handles_def invoke_def handle_stores_append split: prod.split)

lemma keeps_handles_delay_loop:
  "\<exists>wn. delay_loop n K d w = Delaying wn \<and> keeps_handles w wn"
  by (simp add: delay_loop_turns keeps_handles_def handle_stores_append)
     (induction n; simp)

lemma Task_ctor_frame:
  "handle (Task_ctor K this name f priority stackDepth parm w) =
     (case snd (fst (xTaskCreate K f name stackDepth parm (word_of_int priority)
                       (kernel w))) of
        None \<Rightarrow> handle w
      | Some h \<Rightarrow> (handle w)(this := h))"
  "handle_stores (trace (Task_ctor K this name f priority stackDepth parm w)) =
     handle_stores (trace w) @
     (case snd (fst (xTaskCreate K f name stackDepth parm (word_of_int priority)
                       (kernel w))) of
        None \<Rightarrow> []
      | Some h \<Rightarrow> [(this, h)])"
  by (simp_all add: Task_ctor_def invoke_def assign_def handle_stores_append
      split: prod.split option.split)

lemma taskfun_frame:
  assumes "task parm w = Some w1"
  shows "if INCLUDE_vTaskDelete cfg
         then \<exists>w2. taskfun n cfg K task parm w = Some (SelfDeleted w2) \<and>
                handle w2 = (handle w1)(parm := NULL) \<and>
                handle_stores (trace w2) = handle_stores (trace w1) @ [(parm, NULL)]
         else \<exists>wn. taskfun n cfg K task parm w = Some (Delaying wn) \<and> keeps_handles w1 wn"
  using assms keeps_handles_delay_loop [of n K "portMAX_DELAY cfg" w1]
  by (simp add: taskfun_def invoke_void_def assign_def handle_stores_append)

subsection \<open>The trampoline after \<^verbatim>\<open>task()\<close> returns\<close>



text \<open>
  Claim C5. With \<^verbatim>\<open>INCLUDE_vTaskDelete\<close> unset, when the virtual task body returns to the
  trampoline, the trampoline never returns from the entry function: however many turns \<open>n\<close>
  its run is followed for, control is at the head of the loop again, and what the run has
  done since \<^verbatim>\<open>task()\<close> returned is exactly \<open>n\<close> calls \<^verbatim>\<open>vTaskDelay(portMAX_DELAY)\<close>, one after
  the other, each applied to the scheduler, with no store to any \<^verbatim>\<open>handle\<close>. In particular
  no run has left the function or deleted the task.
\<close>

theorem taskfun_never_returns:
  assumes "\<not> INCLUDE_vTaskDelete cfg" and "task parm w = Some w1"
  shows "taskfun n cfg K task parm w =
           Some (Delaying
             (w1\<lparr>kernel := (vTaskDelay K (portMAX_DELAY cfg) ^^ n) (kernel w1),
                 trace := trace w1 @ replicate n (Call (VTaskDelay (portMAX_DELAY cfg)))\<rparr>)) \<and>
         (\<forall>w'. taskfun n cfg K task parm w \<noteq> Some (Returned w') \<and>
               taskfun n cfg K task parm w \<noteq> Some (SelfDeleted w'))"
proof -
  have "taskfun n cfg K task parm w = Some (delay_loop n K (portMAX_DELAY cfg) w1)"
    using assms by (simp add: taskfun_def)
  then show ?thesis
    by (simp add: delay_loop_turns)
qed

theorem taskfun_never_returns_witness:
  "\<not> INCLUDE_vTaskDelete config_without_delete \<and>
   taskfun 3 config_without_delete counting_kernel (\<lambda>p. Some) 1 (fresh_world 7) =
     Some (Delaying
       \<lparr>handle = (\<lambda>a. 7), kernel = 0,
        trace = [Call (VTaskDelay 4294967295), Call (VTaskDelay 4294967295),
                 Call (VTaskDelay 4294967295)]\<rparr>)"
  using taskfun_never_returns [of config_without_delete "\<lambda>p. Some" 1 "fresh_world 7"
      "fresh_world 7" 3 counting_kernel]
  by (simp add: config_without_delete_def fresh_world_def counting_kernel_def numeral_3_eq_3)

subsection \<open>The destructor\<close>




subsection \<open>The constructor\<close>



subsection \<open>Resuming from an interrupt\<close>

text \<open>
  Claim C8. For every stored handle and every truth value \<open>b\<close> that
  \<^verbatim>\<open>xTaskResumeFromISR\<close> reports for it (\<^verbatim>\<open>pdTRUE\<close> or \<^verbatim>\<open>pdFALSE\<close>), \<^verbatim>\<open>resume_ISR\<close> returns \<open>b\<close>.
\<close>

theorem resume_ISR_passes_signal:
  assumes "fst (xTaskResumeFromISR K (getHandle this w) (kernel w)) =
             (if b then pdTRUE else pdFALSE)"
  shows "fst (resume_ISR K this w) = b"
proof -
  obtain r k where prim: "xTaskResumeFromISR K (handle w this) (kernel w) = (r, k)"
    by (cases "xTaskResumeFromISR K (handle w this) (kernel w)")
  from assms prim have "r = (if b then 1 else 0)"
    by (simp add: getHandle_def pdTRUE_def pdFALSE_def)
  moreover from prim have "fst (resume_ISR K this w) = (r \<noteq> 0)"
    by (simp add: resume_ISR_def invoke_def)
  ultimately show ?thesis
    by simp
qed

theorem resume_ISR_passes_signal_witness:
  "fst (resume_ISR counting_kernel 1 (fresh_world 4)) = True \<and>
   fst (resume_ISR counting_kernel 1 (fresh_world 7)) = False"
  using resume_ISR_passes_signal [of counting_kernel 1 "fresh_world 4" True]
    resume_ISR_passes_signal [of counting_kernel 1 "fresh_world 7" False]
  by (simp add: counting_kernel_def fresh_world_def getHandle_def)

subsection \<open>Who writes the handle\<close>

text \<open>
  Claim C10. The member \<^verbatim>\<open>handle\<close> is written at two points only: by \<^verbatim>\<open>xTaskCreate\<close> inside
  the constructor (the object's own member, with the value the primitive stored), and with
  \<open>NULL\<close> in the deletion branch of the trampoline. The accessor, the priority getter and
  setter, suspend, resume, resume from an interrupt and the destructor leave every
  \<^verbatim>\<open>handle\<close> member unchanged and record no store; so does the trampoline without the
  deletion capability, however many turns of its delay loop it has made since \<^verbatim>\<open>task()\<close>
  returned.
\<close>

theorem handle_frame:
  "getHandle this w = handle w this \<and>
   keeps_handles w (snd (priority_get K this w)) \<and>
   keeps_handles w (priority_set K this p w) \<and>
   keeps_handles w (suspend K this w) \<and>
   keeps_handles w (resume K this w) \<and>
   keeps_handles w (snd (resume_ISR K this w)) \<and>
   keeps_handles w (Task_dtor cfg K this w) \<and>
   handle (Task_ctor K this name f priority stackDepth parm w) =
     (case snd (fst (xTaskCreate K f name stackDepth parm (word_of_int priority)
                       (kernel w))) of
        None \<Rightarrow> handle w
      | Some h \<Rightarrow> (handle w)(this := h)) \<and>
   handle_stores (trace (Task_ctor K this name f priority stackDepth parm w)) =
     handle_stores (trace w) @
     (case snd (fst (xTaskCreate K f name stackDepth parm (word_of_int priority)
                       (kernel w))) of
        None \<Rightarrow> []
      | Some h \<Rightarrow> [(this, h)]) \<and>
   (\<forall>w1. task this w = Some w1 \<longrightarrow>
      (if INCLUDE_vTaskDelete cfg
       then \<exists>w2. taskfun n cfg K task this w = Some (SelfDeleted w2) \<and>
              handle w2 = (handle w1)(this := NULL) \<and>
              handle_stores (trace w2) = handle_stores (trace w1) @ [(this, NULL)]
       else \<exists>wn. taskfun n cfg K task this w = Some (Delaying wn) \<and>
              keeps_handles w1 wn))"
proof -
  have "keeps_handles w (snd (priority_get K this w))"
    by (simp add: priority_get_def case_prod_beta keeps_handles_invoke)
  moreover have "keeps_handles w (snd (resume_ISR K this w))"
    by (simp add: resume_ISR_def case_prod_beta keeps_handles_invoke)
  moreover have "keeps_handles w (priority_set K this p w)"
    and "keeps_handles w (suspend K this w)" and "keeps_handles w (resume K this w)"
    by (simp_all add: priority_set_def suspend_def resume_def keeps_handles_invoke_void)
  moreover have "keeps_handles w (Task_dtor cfg K this w)"
    by (simp add: Task_dtor_def keeps_handles_invoke_void) (simp add: keeps_handles_def)
  moreover have "getHandle this w = handle w this"
    by (simp add: getHandle_def)
  ultimately show ?thesis
    using Task_ctor_frame [of K this name f priority stackDepth parm w]
      taskfun_frame [of task this w _ cfg n K]
    by blast
qed

theorem handle_frame_witness:
  "(\<exists>w2. taskfun 2 config_with_delete counting_kernel (\<lambda>p. Some) 1 (fresh_world 7) =
            Some (SelfDeleted w2) \<and>
          handle w2 = (handle (fresh_world 7))(1 := NULL) \<and>
          handle_stores (trace w2) = [(1, NULL)]) \<and>
   (\<exists>wn. taskfun 2 config_without_delete counting_kernel (\<lambda>p. Some) 1 (fresh_world 7) =
            Some (Delaying wn) \<and>
          keeps_handles (fresh_world 7) wn) \<and>
   keeps_handles (fresh_world 7) (Task_dtor config_with_delete counting_kernel 1 (fresh_world 7))"
  using handle_frame [of 1 "fresh_world 7" counting_kernel _ config_with_delete _ _ _ _ _
      "\<lambda>p. Some" 2]
    handle_frame [of 1 "fresh_world 7" counting_kernel _ config_without_delete _ _ _ _ _
      "\<lambda>p. Some" 2]
  by (simp add: config_with_delete_def config_without_delete_def fresh_world_def)

end
